theory Spec2Isabelle
  imports Main "HOL-Library.Word"
begin

section \<open>Data model\<close>

text \<open>
  The seven unit states of \<^verbatim>\<open>smatch_units.c\<close>, declared there with
  \<^verbatim>\<open>STATE(bit); STATE(byte); STATE(array_size); STATE(longs); STATE(page); STATE(msec);
  STATE(jiffy);\<close>. Each is one global object, so comparing pointers to them is comparing
  constructors.
\<close>

datatype unit_kind = Bit | Byte | Array_size | Longs | Page | Msec | Jiffy

text \<open>
  A non-null \<^verbatim>\<open>struct smatch_state *\<close>: the two global sentinels \<^verbatim>\<open>&undefined\<close> and
  \<^verbatim>\<open>&merged\<close>, or a checker's own state. A nullable pointer is an \<open>option\<close> of it.
\<close>

datatype 'a smatch_state = Undefined | Merged | State 'a

type_synonym units_state = "unit_kind smatch_state"

fun unit_name :: "unit_kind \<Rightarrow> string" where
  "unit_name Bit = ''bit''"
| "unit_name Byte = ''byte''"
| "unit_name Array_size = ''array_size''"
| "unit_name Longs = ''longs''"
| "unit_name Page = ''page''"
| "unit_name Msec = ''msec''"
| "unit_name Jiffy = ''jiffy''"

text \<open>The \<^verbatim>\<open>name\<close> field of a state of the units checker.\<close>

fun state_name :: "units_state \<Rightarrow> string" where
  "state_name Undefined = ''undefined''"
| "state_name Merged = ''merged''"
| "state_name (State u) = unit_name u"

text \<open>
  Operator codes (\<^verbatim>\<open>expr->op\<close>). The checkers only tell apart the codes named here;
  \<open>OP_other\<close> stands for every other code.
\<close>

datatype op =
    OP_plus | OP_minus | OP_star | OP_slash
  | SPECIAL_LEFTSHIFT | SPECIAL_RIGHTSHIFT
  | OP_assign | OP_paren | OP_other nat

type_synonym position = nat

text \<open>
  Expression trees (\<^verbatim>\<open>struct expression\<close>): the node kinds the two checkers look at,
  each with its source position.
\<close>

datatype expression =
    EXPR_VALUE position int
  | EXPR_SYMBOL position string
  | EXPR_BINOP position op expression expression
  | EXPR_COMPARE position op expression expression
  | EXPR_ASSIGNMENT position op expression expression
  | EXPR_PREOP position op expression
  | EXPR_CAST position expression
  | EXPR_DEREF position expression string
  | EXPR_CALL position expression "expression list"
  | EXPR_SIZEOF position
  | EXPR_PTRSIZEOF position

fun pos :: "expression \<Rightarrow> position" where
  "pos (EXPR_VALUE p _) = p"
| "pos (EXPR_SYMBOL p _) = p"
| "pos (EXPR_BINOP p _ _ _) = p"
| "pos (EXPR_COMPARE p _ _ _) = p"
| "pos (EXPR_ASSIGNMENT p _ _ _) = p"
| "pos (EXPR_PREOP p _ _) = p"
| "pos (EXPR_CAST p _) = p"
| "pos (EXPR_DEREF p _ _) = p"
| "pos (EXPR_CALL p _ _) = p"
| "pos (EXPR_SIZEOF p) = p"
| "pos (EXPR_PTRSIZEOF p) = p"

text \<open>
  Modelled from the spec: the host query \<^verbatim>\<open>strip_expr\<close> (``strip-syntactic-wrappers'') is not
  part of the two source files. It removes the wrappers around an expression, here
  parentheses and casts, and maps the null pointer to itself.
\<close>

fun strip :: "expression \<Rightarrow> expression" where
  "strip (EXPR_PREOP p OP_paren e) = strip e"
| "strip (EXPR_CAST p e) = strip e"
| "strip e = e"

fun strip_expr :: "expression option \<Rightarrow> expression option" where
  "strip_expr None = None"
| "strip_expr (Some e) = Some (strip e)"

text \<open>Static types as far as the checkers inspect them (\<^verbatim>\<open>type->type\<close>).\<close>

datatype sym_type = SYM_BASETYPE | SYM_PTR | SYM_ARRAY | SYM_STRUCT | SYM_FN

datatype stmt_type = STMT_EXPRESSION | STMT_RETURN | STMT_IF | STMT_COMPOUND

text \<open>
  A row of the \<^verbatim>\<open>type_info\<close> table, as \<^verbatim>\<open>store_type_in_db\<close> writes it:
  file id, fact type, key (the member name) and value (the unit's name).
\<close>

datatype info_type = UNITS | MTAG_ASSIGN | OTHER_INFO nat

record type_info_row =
  ti_file :: nat
  ti_type :: info_type
  ti_key :: string
  ti_value :: string

text \<open>
  A row of the \<^verbatim>\<open>return_implies\<close> table as \<^verbatim>\<open>process_states\<close> writes it.
\<close>

record return_implies_row =
  ri_file :: nat
  ri_function :: string
  ri_static :: bool
  ri_type :: info_type
  ri_param :: int
  ri_key :: string
  ri_value :: string

text \<open>The diagnostics of the units checker, with the arguments of their format strings.\<close>

datatype message =
    Ambiguous_units_merge string string string
  | Other_places_set string string string
  | Multiplying_bits_bytes expression
  | Missing_conversion expression string op string

text \<open>
  What the host answers to the units checker: the queries of \<^verbatim>\<open>smatch.h\<close> that the
  source calls but does not define, the statement being walked, the file and function
  being analysed with its formal parameters and their states at function entry
  (\<^verbatim>\<open>get_start_states()\<close>), and the persisted database.
\<close>

record host =
  pos_ident :: "position \<Rightarrow> string option"
  get_macro_name :: "position \<Rightarrow> string option"
  get_implied_value :: "expression \<Rightarrow> int option"
  get_member_name :: "expression \<Rightarrow> string option"
  get_type :: "expression \<Rightarrow> sym_type option"
  expr_to_var :: "expression \<Rightarrow> string option"
  cur_stmt :: "stmt_type option"
  base_file_id :: nat
  function_name :: string
  fn_static :: bool
  db_type_info :: "type_info_row list"
  arguments :: "string list"
  start_states :: "string \<rightharpoonup> units_state"

text \<open>
  What the units checker changes: its states on the current path (the host's stree for
  \<^verbatim>\<open>my_id\<close>, keyed by variable name), the rows it has inserted in the cache tables, and the
  diagnostics printed so far (oldest first).
\<close>

record world =
  stree :: "string \<rightharpoonup> units_state"
  cache_type_info :: "type_info_row list"
  cache_return_implies :: "return_implies_row list"
  msgs :: "message list"

record sm_state =
  sm_name :: string
  sm_state :: units_state

section \<open>The merge hooks\<close>

text \<open>\<^verbatim>\<open>merge_units\<close> (smatch_units.c).\<close>

fun merge_units :: "units_state \<Rightarrow> units_state \<Rightarrow> units_state" where
  "merge_units s1 s2 =
     (if s1 = Undefined then s2
      else if s2 = Undefined then s1
      else Merged)"

text \<open>\<^verbatim>\<open>pre_merge_hook\<close>: the diagnostic before a merge. It only prints.\<close>

definition pre_merge_hook :: "host \<Rightarrow> sm_state \<Rightarrow> sm_state \<Rightarrow> message list \<Rightarrow> message list" where
  "pre_merge_hook h cur other out =
     (if sm_state cur = sm_state other then out
      else if sm_state cur = Undefined \<or> sm_state cur = Merged \<or>
              sm_state other = Undefined \<or> sm_state other = Merged then out
      else if cur_stmt h = None \<or> cur_stmt h \<noteq> Some STMT_RETURN then
        out @ [Ambiguous_units_merge (sm_name cur) (state_name (sm_state cur))
                 (state_name (sm_state other))]
      else out)"

section \<open>Units inference\<close>

text \<open>\<^verbatim>\<open>str_to_units\<close>: from a unit's name to its state; the null pointer otherwise.\<close>

fun str_to_units :: "string option \<Rightarrow> units_state option" where
  "str_to_units None = None"
| "str_to_units (Some str) =
     (if str = ''bit'' then Some (State Bit)
      else if str = ''byte'' then Some (State Byte)
      else if str = ''page'' then Some (State Page)
      else if str = ''msec'' then Some (State Msec)
      else if str = ''jiffy'' then Some (State Jiffy)
      else if str = ''longs'' then Some (State Longs)
      else if str = ''array_size'' then Some (State Array_size)
      else if str = ''unknown'' then None
      else None)"

text \<open>
  \<^verbatim>\<open>db_units\<close>: the callback of the lookup, called once for each row found. The first
  argument is \<^verbatim>\<open>*units\<close> before the call, the second is \<^verbatim>\<open>argv[0]\<close>, the result
  is \<^verbatim>\<open>*units\<close> after the call.
\<close>

fun db_units :: "string option \<Rightarrow> string \<Rightarrow> string option" where
  "db_units (Some units) argv0 = (if units = argv0 then Some units else Some ''unknown'')"
| "db_units None argv0 = Some argv0"

text \<open>
  Modelled from the spec: the host's \<^verbatim>\<open>cache_sql\<close> and \<^verbatim>\<open>run_sql\<close> are not part of
  the two source files. Each runs the query
  \<^verbatim>\<open>select value from type_info where type = UNITS and key = member\<close> on its table
  (the cache of this run, the persisted database) and calls the callback on every row
  found, in order; \<^verbatim>\<open>sql_insert_cache\<close> appends a row to the cache table.
\<close>

definition select_value :: "type_info_row list \<Rightarrow> info_type \<Rightarrow> string \<Rightarrow> string list" where
  "select_value rows t k = map ti_value (filter (\<lambda>r. ti_type r = t \<and> ti_key r = k) rows)"

definition run_query :: "type_info_row list \<Rightarrow> string option \<Rightarrow> string \<Rightarrow> string option" where
  "run_query rows units member = foldl db_units units (select_value rows UNITS member)"

definition sql_insert_cache_type_info :: "type_info_row \<Rightarrow> world \<Rightarrow> world" where
  "sql_insert_cache_type_info r w = w\<lparr>cache_type_info := cache_type_info w @ [r]\<rparr>"

text \<open>
  The two lookups of \<^verbatim>\<open>get_units_from_type\<close>, one after the other on the same
  \<^verbatim>\<open>units\<close> variable, which starts as the null pointer.
\<close>

definition lookup_units :: "host \<Rightarrow> world \<Rightarrow> string \<Rightarrow> string option" where
  "lookup_units h w member =
     run_query (db_type_info h) (run_query (cache_type_info w) None member) member"

text \<open>\<^verbatim>\<open>get_units_from_type\<close>.\<close>

definition get_units_from_type :: "host \<Rightarrow> world \<Rightarrow> expression \<Rightarrow> units_state option" where
  "get_units_from_type h w expr =
     (case get_member_name h expr of
        None \<Rightarrow> None
      | Some member \<Rightarrow>
          if member = ''(struct vm_area_struct)->vm_pgoff'' then Some (State Page)
          else (case lookup_units h w member of
                  None \<Rightarrow> None
                | Some units \<Rightarrow> str_to_units (Some units)))"

definition is_PAGE_SHIFT :: "host \<Rightarrow> expression \<Rightarrow> bool" where
  "is_PAGE_SHIFT h expr = (get_macro_name h (pos expr) = Some ''PAGE_SHIFT'')"

definition is_PAGE_SIZE :: "host \<Rightarrow> expression \<Rightarrow> bool" where
  "is_PAGE_SIZE h expr = (get_macro_name h (pos expr) = Some ''PAGE_SIZE'')"

definition is_BITS_PER_LONG :: "host \<Rightarrow> expression \<Rightarrow> bool" where
  "is_BITS_PER_LONG h expr = (get_macro_name h (pos expr) = Some ''BITS_PER_LONG'')"

text \<open>
  Modelled from the spec: the host's \<^verbatim>\<open>sym_name_is\<close> is not part of the two source
  files; it tells whether an expression is the symbol of the given name.
\<close>

fun sym_name_is :: "string \<Rightarrow> expression \<Rightarrow> bool" where
  "sym_name_is name (EXPR_SYMBOL p n) = (n = name)"
| "sym_name_is name e = False"

text \<open>\<^verbatim>\<open>get_units_call\<close>.\<close>

definition get_units_call :: "expression \<Rightarrow> units_state option" where
  "get_units_call expr =
     (case strip_expr (Some expr) of
        Some (EXPR_CALL p fn args) \<Rightarrow>
          if sym_name_is ''msecs_to_jiffies'' fn then Some (State Jiffy)
          else if sym_name_is ''jiffies_to_msecs'' fn then Some (State Msec)
          else None
      | _ \<Rightarrow> None)"

text \<open>
  Modelled from the spec: the host's \<^verbatim>\<open>get_state_expr\<close> and \<^verbatim>\<open>set_state_expr\<close> are
  not part of the two source files. They name the expression's variable and read or write
  the state stored under that name on the current path; an expression that names no
  variable has no state and none is set.
\<close>

definition get_state_expr :: "host \<Rightarrow> world \<Rightarrow> expression \<Rightarrow> units_state option" where
  "get_state_expr h w expr =
     (case expr_to_var h expr of None \<Rightarrow> None | Some name \<Rightarrow> stree w name)"

definition set_state_expr :: "host \<Rightarrow> expression \<Rightarrow> units_state \<Rightarrow> world \<Rightarrow> world" where
  "set_state_expr h expr state w =
     (case expr_to_var h expr of
        None \<Rightarrow> w
      | Some name \<Rightarrow> w\<lparr>stree := (stree w)(name \<mapsto> state)\<rparr>)"

lemma size_strip: "size (strip e) \<le> size e"
  by (induction e rule: strip.induct) auto

lemma strip_expr_binop_size:
  assumes "strip_expr expr0 = Some (EXPR_BINOP p op l r)"
  shows "Suc (2 * size l + 2 * size r) < (case expr0 of None \<Rightarrow> 0 | Some e' \<Rightarrow> 2 * size e')"
proof (cases expr0)
  case None
  with assms show ?thesis by simp
next
  case (Some e)
  with assms have "strip e = EXPR_BINOP p op l r" by simp
  with size_strip [of e] show ?thesis using Some by simp
qed

text \<open>
  \<^verbatim>\<open>get_units\<close> and \<^verbatim>\<open>binop_helper\<close>, which call each other. \<^verbatim>\<open>get_units_binop\<close>
  passes the three fields of a binary expression to \<^verbatim>\<open>binop_helper\<close>; that call is
  the \<open>EXPR_BINOP\<close> branch below.
\<close>

function get_units :: "host \<Rightarrow> world \<Rightarrow> expression option \<Rightarrow> units_state option"
  and binop_helper :: "host \<Rightarrow> world \<Rightarrow> expression \<Rightarrow> op \<Rightarrow> expression \<Rightarrow> units_state option"
where
  "get_units h w expr0 =
     (case strip_expr expr0 of
        None \<Rightarrow> None
      | Some expr \<Rightarrow>
          (case expr of
             EXPR_PTRSIZEOF p \<Rightarrow> Some (State Byte)
           | EXPR_SIZEOF p \<Rightarrow> Some (State Byte)
           | _ \<Rightarrow>
              (let ident = pos_ident h (pos expr) in
               if ident = Some ''sizeof'' \<or> ident = Some ''PAGE_SIZE'' then Some (State Byte)
               else if ident = Some ''jiffies'' then Some (State Jiffy)
               else if ident = Some ''BITS_PER_LONG'' then Some (State Bit)
               else if ident = Some ''BITS_PER_LONG_LONG'' then Some (State Bit)
               else if ident = Some ''ARRAY_SIZE'' then Some (State Array_size)
               else
                 (case expr of
                    EXPR_BINOP p op left right \<Rightarrow> binop_helper h w left op right
                  | EXPR_CALL p fn args \<Rightarrow> get_units_call expr
                  | _ \<Rightarrow>
                     (let state = get_state_expr h w expr in
                      if state = Some Merged \<or> state = Some Undefined then None
                      else if state \<noteq> None then state
                      else get_units_from_type h w expr)))))"
| "binop_helper h w left op right =
     (if op = OP_minus \<or> op = OP_plus then
        (let left_state = get_units h w (Some left);
             right_state = get_units h w (Some right)
         in if left_state = Some (State Array_size) \<or> right_state = Some (State Array_size)
            then None
            else if left_state \<noteq> None then left_state else right_state)
      else if op = OP_star then
        (if is_PAGE_SIZE h right then Some (State Byte)
         else (case get_implied_value h right of
                 None \<Rightarrow> None
               | Some val \<Rightarrow> if val = 4096 then Some (State Byte) else None))
      else if op = OP_slash then
        (if is_BITS_PER_LONG h right then Some (State Longs)
         else if is_PAGE_SIZE h right then Some (State Page)
         else (case get_implied_value h right of
                 None \<Rightarrow> None
               | Some val \<Rightarrow> if val = 4096 then Some (State Page) else None))
      else if op = SPECIAL_LEFTSHIFT then
        (if is_PAGE_SHIFT h right then Some (State Byte) else None)
      else if op = SPECIAL_RIGHTSHIFT then
        (if is_PAGE_SHIFT h right then Some (State Page) else None)
      else None)"
  by pat_completeness auto

termination
  by (relation "measure (\<lambda>x. case x of
          Inl (h, w, e) \<Rightarrow> (case e of None \<Rightarrow> 0 | Some e' \<Rightarrow> 2 * size e')
        | Inr (h, w, l, op, r) \<Rightarrow> 2 * (size l + size r) + 1)")
     (auto dest: strip_expr_binop_size)

text \<open>\<^verbatim>\<open>get_units_binop\<close>, for an expression of type \<open>EXPR_BINOP\<close>.\<close>

fun get_units_binop :: "host \<Rightarrow> world \<Rightarrow> expression \<Rightarrow> units_state option" where
  "get_units_binop h w (EXPR_BINOP p op left right) = binop_helper h w left op right"
| "get_units_binop h w e = None"

declare get_units.simps [simp del] binop_helper.simps [simp del]

section \<open>Recording units\<close>

text \<open>\<^verbatim>\<open>is_ignored_type\<close>; \<^verbatim>\<open>strncmp\<close> with length 24 compares the first 24 characters.\<close>

definition is_ignored_type :: "string option \<Rightarrow> bool" where
  "is_ignored_type name =
     (case name of
        None \<Rightarrow> False
      | Some n \<Rightarrow>
          if n = ''(union anonymous)->__val'' then True
          else if take 24 n = ''(struct fs_parse_result)'' then True
          else False)"

text \<open>\<^verbatim>\<open>store_type_in_db\<close>.\<close>

definition store_type_in_db :: "host \<Rightarrow> expression \<Rightarrow> units_state \<Rightarrow> world \<Rightarrow> world" where
  "store_type_in_db h expr state w =
     (case get_member_name h expr of
        None \<Rightarrow> w
      | Some member \<Rightarrow>
          if is_ignored_type (Some member) then w
          else
            (let old_units = get_units_from_type h w expr;
                 w1 = (case old_units of
                         None \<Rightarrow> w
                       | Some old \<Rightarrow>
                           if old \<noteq> state
                           then w\<lparr>msgs := msgs w @
                                  [Other_places_set member (state_name old) (state_name state)]\<rparr>
                           else w)
             in sql_insert_cache_type_info
                  \<lparr>ti_file = base_file_id h, ti_type = UNITS, ti_key = member,
                   ti_value = state_name state\<rparr> w1))"

text \<open>\<^verbatim>\<open>set_units\<close>; the state may be the null pointer.\<close>

definition set_units :: "host \<Rightarrow> expression \<Rightarrow> units_state option \<Rightarrow> world \<Rightarrow> world" where
  "set_units h expr state w =
     (case state of
        None \<Rightarrow> w
      | Some st \<Rightarrow> store_type_in_db h expr st (set_state_expr h expr st w))"

section \<open>The hooks on binary expressions\<close>

text \<open>
  The host calls the two hooks below on expressions of type \<open>EXPR_BINOP\<close> only; they
  read \<^verbatim>\<open>expr->op\<close>, \<^verbatim>\<open>expr->left\<close> and \<^verbatim>\<open>expr->right\<close>.
\<close>

text \<open>\<^verbatim>\<open>check_mult\<close>.\<close>

fun check_mult :: "host \<Rightarrow> expression \<Rightarrow> world \<Rightarrow> world" where
  "check_mult h (EXPR_BINOP p op l r) w =
     (let left = get_units h w (Some l);
          right = get_units h w (Some r);
          bit_found = (left = Some (State Bit) \<or> right = Some (State Bit));
          byte_found = (left = Some (State Byte) \<or> right = Some (State Byte))
      in if bit_found \<and> byte_found
         then w\<lparr>msgs := msgs w @ [Multiplying_bits_bytes (EXPR_BINOP p op l r)]\<rparr>
         else w)"
| "check_mult h e w = w"

text \<open>\<^verbatim>\<open>check_add_sub\<close>.\<close>

fun check_add_sub :: "host \<Rightarrow> expression \<Rightarrow> world \<Rightarrow> world" where
  "check_add_sub h (EXPR_BINOP p op l r) w =
     (let type = get_type h l in
      if type = Some SYM_PTR \<or> type = Some SYM_ARRAY then w
      else
        (let left = get_units h w (Some l);
             right = get_units h w (Some r)
         in case (left, right) of
              (Some ls, Some rs) \<Rightarrow>
                if ls = rs then w
                else w\<lparr>msgs := msgs w @
                       [Missing_conversion (EXPR_BINOP p op l r) (state_name ls) op
                          (state_name rs)]\<rparr>
            | _ \<Rightarrow> w))"
| "check_add_sub h e w = w"

text \<open>\<^verbatim>\<open>match_binop_check\<close>.\<close>

fun match_binop_check :: "host \<Rightarrow> expression \<Rightarrow> world \<Rightarrow> world" where
  "match_binop_check h (EXPR_BINOP p op l r) w =
     (if op = OP_plus \<or> op = OP_minus then check_add_sub h (EXPR_BINOP p op l r) w
      else if op = OP_star then check_mult h (EXPR_BINOP p op l r) w
      else w)"
| "match_binop_check h e w = w"

text \<open>\<^verbatim>\<open>match_binop_set\<close>.\<close>

fun match_binop_set :: "host \<Rightarrow> expression \<Rightarrow> world \<Rightarrow> world" where
  "match_binop_set h (EXPR_BINOP p op l r) w =
     (if op = SPECIAL_LEFTSHIFT \<and> is_PAGE_SHIFT h r then set_units h l (Some (State Page)) w
      else if op = SPECIAL_RIGHTSHIFT \<and> is_PAGE_SHIFT h r then set_units h l (Some (State Byte)) w
      else if op \<noteq> OP_plus \<and> op \<noteq> OP_minus then w
      else
        (let type = get_type h l in
         if type = Some SYM_PTR \<or> type = Some SYM_ARRAY then w
         else
           (let left = get_units h w (Some l);
                right = get_units h w (Some r);
                w1 = (if left \<noteq> None \<and> right = None then set_units h r left w else w)
            in if right \<noteq> None \<and> left = None then set_units h l right w1 else w1)))"
| "match_binop_set h e w = w"

section \<open>The summary at function exit\<close>

text \<open>
  The loop of \<^verbatim>\<open>process_states\<close> over the formal parameters; \<open>param\<close> is the counter
  before \<^verbatim>\<open>param++\<close>. A parameter is named by its identifier.
\<close>

fun process_args :: "host \<Rightarrow> string list \<Rightarrow> int \<Rightarrow> world \<Rightarrow> world" where
  "process_args h [] param w = w"
| "process_args h (arg # args) param0 w =
     (let param = param0 + 1;
          state = stree w arg
      in if state = None \<or> state = Some Merged \<or> state = Some Undefined
         then process_args h args param w
         else
           (let start_state = start_states h arg in
            if state = start_state then process_args h args param w
            else process_args h args param
                   (w\<lparr>cache_return_implies := cache_return_implies w @
                        [\<lparr>ri_file = base_file_id h, ri_function = function_name h,
                          ri_static = fn_static h, ri_type = UNITS, ri_param = param,
                          ri_key = ''$'',
                          ri_value = (case state of Some st \<Rightarrow> state_name st | None \<Rightarrow> [])\<rparr>]\<rparr>)))"

text \<open>\<^verbatim>\<open>process_states\<close>.\<close>

definition process_states :: "host \<Rightarrow> world \<Rightarrow> world" where
  "process_states h w = process_args h (arguments h) (- 1) w"

section \<open>Heap-tag propagation\<close>

text \<open>
  The second source file. An \<^verbatim>\<open>mtag_t\<close> is an unsigned 64-bit integer; offsets are C
  \<^verbatim>\<open>int\<close>s, here 32-bit words, so that \<^verbatim>\<open>-offset\<close> is the negation the machine computes.
  Parameter numbers are only compared with zero and used as indices.
\<close>

type_synonym mtag_t = "64 word"

record tag_assign_info =
  tai_tag :: mtag_t
  tai_offset :: "32 word"
  tai_param :: int

text \<open>A state allocated by \<^verbatim>\<open>alloc_tag_data_state\<close>: its name and its data.\<close>

record tag_data =
  td_name :: string
  td_data :: tag_assign_info

type_synonym tag_state = "tag_data smatch_state"

type_synonym range_list = "(int \<times> int) list"

record mtag_data_row =
  md_tag :: mtag_t
  md_name :: string
  md_offset :: "32 word"
  md_rl :: range_list

record mtag_map_row =
  mm_tag :: mtag_t
  mm_offset :: "32 word"
  mm_container :: mtag_t

text \<open>
  What the host answers to the tag checker: queries that the source calls but does not
  define, and the two C library conversions used on the stored value. A symbol is named
  by its identifier; \<open>get_param_num_from_sym\<close> is negative for a symbol that is not a
  formal parameter of the function being analysed; \<open>new_mtag_alias\<close> is the alias that
  \<^verbatim>\<open>create_mtag_alias\<close> would hand out for a tag at a call, if it can make one.
\<close>

record mtag_host =
  get_param_num_from_sym :: "string \<Rightarrow> int"
  new_mtag_alias :: "mtag_t \<Rightarrow> expression \<Rightarrow> mtag_t option"
  get_mtag :: "expression \<Rightarrow> mtag_t option"
  get_absolute_rl :: "expression \<Rightarrow> range_list"
  mtag_expr_to_var :: "expression \<Rightarrow> string option"
  strtoul :: "string \<Rightarrow> mtag_t"
  atoi :: "string \<Rightarrow> 32 word"

text \<open>
  What the tag checker changes: its states on the current path, the aliases created, and
  the rows inserted in the \<^verbatim>\<open>mtag_data\<close> and \<^verbatim>\<open>mtag_map\<close> tables.
\<close>

record mtag_world =
  mtag_stree :: "string \<rightharpoonup> tag_state"
  mtag_alias :: "(mtag_t \<times> mtag_t) list"
  mtag_data :: "mtag_data_row list"
  mtag_map :: "mtag_map_row list"

text \<open>\<^verbatim>\<open>alloc_tag_data_state\<close>.\<close>

definition alloc_tag_data_state :: "mtag_t \<Rightarrow> string \<Rightarrow> 32 word \<Rightarrow> int \<Rightarrow> tag_state" where
  "alloc_tag_data_state tag data_name offset param =
     State \<lparr>td_name = data_name,
            td_data = \<lparr>tai_tag = tag, tai_offset = offset, tai_param = param\<rparr>\<rparr>"

text \<open>\<^verbatim>\<open>merge_tag_info\<close>.\<close>

fun merge_tag_info :: "tag_state \<Rightarrow> tag_state \<Rightarrow> tag_state" where
  "merge_tag_info s1 s2 =
     (if s1 = Undefined then s2
      else if s2 = Undefined then s1
      else Merged)"

text \<open>
  Modelled from the spec: the host calls below are not part of the two source files.
  \<^verbatim>\<open>get_argument_from_call_expr\<close> (``get-call-argument'') gives the argument at an index, the
  null pointer when there is none; \<^verbatim>\<open>set_state_expr\<close> stores a state under the
  expression's variable; \<^verbatim>\<open>create_mtag_alias\<close> (``allocate-tag-alias'') records and returns
  a new alias or fails; \<^verbatim>\<open>insert_mtag_data\<close> and \<^verbatim>\<open>sql_insert_mtag_map\<close> append a row
  to their table.
\<close>

definition get_argument_from_call_expr :: "expression list \<Rightarrow> int \<Rightarrow> expression option" where
  "get_argument_from_call_expr args num =
     (if 0 \<le> num \<and> nat num < length args then Some (args ! nat num) else None)"

definition set_state_expr_mtag :: "mtag_host \<Rightarrow> expression \<Rightarrow> tag_state \<Rightarrow> mtag_world \<Rightarrow> mtag_world" where
  "set_state_expr_mtag h expr state w =
     (case mtag_expr_to_var h expr of
        None \<Rightarrow> w
      | Some name \<Rightarrow> w\<lparr>mtag_stree := (mtag_stree w)(name \<mapsto> state)\<rparr>)"

definition create_mtag_alias :: "mtag_host \<Rightarrow> mtag_t \<Rightarrow> expression \<Rightarrow> mtag_world \<Rightarrow> mtag_t option \<times> mtag_world" where
  "create_mtag_alias h tag expr w =
     (case new_mtag_alias h tag expr of
        None \<Rightarrow> (None, w)
      | Some alias \<Rightarrow> (Some alias, w\<lparr>mtag_alias := mtag_alias w @ [(tag, alias)]\<rparr>))"

definition insert_mtag_data :: "mtag_t \<Rightarrow> string \<Rightarrow> 32 word \<Rightarrow> range_list \<Rightarrow> mtag_world \<Rightarrow> mtag_world" where
  "insert_mtag_data tag name offset rl w =
     w\<lparr>mtag_data := mtag_data w @
         [\<lparr>md_tag = tag, md_name = name, md_offset = offset, md_rl = rl\<rparr>]\<rparr>"

definition sql_insert_mtag_map :: "mtag_t \<Rightarrow> 32 word \<Rightarrow> mtag_t \<Rightarrow> mtag_world \<Rightarrow> mtag_world" where
  "sql_insert_mtag_map tag offset container w =
     w\<lparr>mtag_map := mtag_map w @
         [\<lparr>mm_tag = tag, mm_offset = offset, mm_container = container\<rparr>]\<rparr>"

text \<open>Decimal printing, for the \<^verbatim>\<open>%d\<close> of \<^verbatim>\<open>snprintf\<close>.\<close>

fun digits :: "nat \<Rightarrow> string" where
  "digits n =
     (if n < 10 then [''0123456789'' ! n]
      else digits (n div 10) @ [''0123456789'' ! (n mod 10)])"

definition show_int :: "int \<Rightarrow> string" where
  "show_int i = (if i < 0 then CHR ''-'' # digits (nat (- i)) else digits (nat i))"

text \<open>The fields \<^verbatim>\<open>expr->args\<close> of a call.\<close>

fun call_args :: "expression \<Rightarrow> expression list" where
  "call_args (EXPR_CALL p fn args) = args"
| "call_args e = []"

text \<open>
  \<^verbatim>\<open>propogate_assignment\<close>; the result is paired with the new state of the checker, and
  \<open>True\<close> is the C result 1.
\<close>

definition propogate_assignment ::
  "mtag_host \<Rightarrow> expression \<Rightarrow> int \<Rightarrow> mtag_t \<Rightarrow> 32 word \<Rightarrow> mtag_world \<Rightarrow> bool \<times> mtag_world" where
  "propogate_assignment h expr param tag offset w =
     (case get_argument_from_call_expr (call_args expr) param of
        None \<Rightarrow> (False, w)
      | Some arg \<Rightarrow>
          (case arg of
             EXPR_SYMBOL p symbol \<Rightarrow>
               (let orig_param = get_param_num_from_sym h symbol in
                if orig_param < 0 then (False, w)
                else
                  (let buf = ''$->['' @ show_int (sint offset) @ '']'' in
                   (True, set_state_expr_mtag h arg
                            (alloc_tag_data_state tag buf offset orig_param) w)))
           | _ \<Rightarrow> (False, w)))"

text \<open>\<^verbatim>\<open>assign_to_alias\<close>.\<close>

definition assign_to_alias ::
  "mtag_host \<Rightarrow> expression \<Rightarrow> int \<Rightarrow> mtag_t \<Rightarrow> 32 word \<Rightarrow> mtag_world \<Rightarrow> mtag_world" where
  "assign_to_alias h expr param tag offset w =
     (case get_argument_from_call_expr (call_args expr) param of
        None \<Rightarrow> w
      | Some arg \<Rightarrow>
          (let rl = get_absolute_rl h arg in
           case create_mtag_alias h tag expr w of
             (None, w1) \<Rightarrow> w1
           | (Some alias, w1) \<Rightarrow>
               (let w2 = insert_mtag_data alias [] offset rl w1 in
                case get_mtag h arg of
                  Some arg_tag \<Rightarrow> sql_insert_mtag_map arg_tag (- offset) alias w2
                | None \<Rightarrow> w2)))"

text \<open>
  The loop at the head of \<^verbatim>\<open>call_does_mtag_assign\<close>:
  \<^verbatim>\<open>while (expr->type == EXPR_ASSIGNMENT) expr = strip_expr(expr->right);\<close>
\<close>

function (sequential) skip_assignments :: "expression \<Rightarrow> expression" where
  "skip_assignments (EXPR_ASSIGNMENT p op l r) = skip_assignments (strip r)"
| "skip_assignments e = e"
  by pat_completeness auto

termination
proof (relation "measure size", goal_cases)
  case 1
  show ?case by simp
next
  case (2 p op l r)
  have "size (strip r) \<le> size r" by (rule size_strip)
  then show ?case by simp
qed

text \<open>\<^verbatim>\<open>strchr(value, '+')\<close>, then one character further: what follows the first plus sign.\<close>

definition after_plus :: "string \<Rightarrow> string option" where
  "after_plus value =
     (case dropWhile (\<lambda>c. c \<noteq> CHR ''+'') value of [] \<Rightarrow> None | c # rest \<Rightarrow> Some rest)"

text \<open>\<^verbatim>\<open>call_does_mtag_assign\<close>: a call site consumes a return fact of type \<open>MTAG_ASSIGN\<close>.\<close>

definition call_does_mtag_assign ::
  "mtag_host \<Rightarrow> expression \<Rightarrow> int \<Rightarrow> string \<Rightarrow> string \<Rightarrow> mtag_world \<Rightarrow> mtag_world" where
  "call_does_mtag_assign h expr0 param key value w =
     (let expr = skip_assignments expr0 in
      case expr of
        EXPR_CALL p fn args \<Rightarrow>
          (let tag = strtoul h value in
           case after_plus value of
             None \<Rightarrow> w
           | Some rest \<Rightarrow>
               (let offset = atoi h rest in
                case propogate_assignment h expr param tag offset w of
                  (True, w1) \<Rightarrow> w1
                | (False, w1) \<Rightarrow> assign_to_alias h expr param tag offset w1))
      | _ \<Rightarrow> w)"

section \<open>Sample inputs\<close>

text \<open>
  A host for the concrete evaluations below. Position 7 carries the identifier
  \<^verbatim>\<open>ARRAY_SIZE\<close>, 8 \<^verbatim>\<open>jiffies\<close> and 9 \<^verbatim>\<open>BITS_PER_LONG\<close>; positions 20, 21 and 22 lie in
  the macros \<^verbatim>\<open>PAGE_SIZE\<close>, \<^verbatim>\<open>PAGE_SHIFT\<close> and \<^verbatim>\<open>BITS_PER_LONG\<close>. A literal has its
  value as implied value, a member access is named by its member, and the symbol
  \<^verbatim>\<open>ptr\<close> is a pointer. The function analysed is \<^verbatim>\<open>f(p, q, r)\<close>, entered with
  \<^verbatim>\<open>q\<close> in bytes.
\<close>

definition host0 :: host where
  "host0 =
     \<lparr>pos_ident = (\<lambda>p. if p = 7 then Some ''ARRAY_SIZE'' else if p = 8 then Some ''jiffies''
                       else if p = 9 then Some ''BITS_PER_LONG'' else None),
      get_macro_name = (\<lambda>p. if p = 20 then Some ''PAGE_SIZE''
                       else if p = 21 then Some ''PAGE_SHIFT''
                       else if p = 22 then Some ''BITS_PER_LONG'' else None),
      get_implied_value = (\<lambda>e. case e of EXPR_VALUE p v \<Rightarrow> Some v | _ \<Rightarrow> None),
      get_member_name = (\<lambda>e. case e of EXPR_DEREF p b m \<Rightarrow> Some m | _ \<Rightarrow> None),
      get_type = (\<lambda>e. case e of
                     EXPR_SYMBOL p n \<Rightarrow> if n = ''ptr'' then Some SYM_PTR else Some SYM_BASETYPE
                   | _ \<Rightarrow> None),
      expr_to_var = (\<lambda>e. case e of
                     EXPR_SYMBOL p n \<Rightarrow> Some n
                   | EXPR_DEREF p b m \<Rightarrow> Some m
                   | _ \<Rightarrow> None),
      cur_stmt = None,
      base_file_id = 1,
      function_name = ''f'',
      fn_static = False,
      db_type_info = [],
      arguments = [''p'', ''q'', ''r''],
      start_states = [''q'' \<mapsto> State Byte]\<rparr>"

definition world0 :: world where
  "world0 = \<lparr>stree = Map.empty, cache_type_info = [], cache_return_implies = [], msgs = []\<rparr>"

definition member0 :: expression where
  "member0 = EXPR_DEREF 0 (EXPR_SYMBOL 0 ''s'') ''(struct s)->len''"

definition vm_pgoff0 :: expression where
  "vm_pgoff0 = EXPR_DEREF 0 (EXPR_SYMBOL 0 ''vma'') ''(struct vm_area_struct)->vm_pgoff''"

text \<open>
  A path at the exit of \<^verbatim>\<open>f(p, q, r)\<close>: \<^verbatim>\<open>p\<close> merged, \<^verbatim>\<open>q\<close> in bytes as at entry,
  \<^verbatim>\<open>r\<close> in jiffies.
\<close>

definition world1 :: world where
  "world1 = world0\<lparr>stree := [''p'' \<mapsto> Merged, ''q'' \<mapsto> State Byte, ''r'' \<mapsto> State Jiffy]\<rparr>"

text \<open>
  A host for the tag checker: \<^verbatim>\<open>p\<close> is the caller's first parameter, the alias of a
  tag is the tag plus 1000, \<^verbatim>\<open>g\<close> has the tag 77, and the stored value \<^verbatim>\<open>42+8\<close> reads as
  tag 42 and offset 8.
\<close>

definition mtag_host0 :: mtag_host where
  "mtag_host0 =
     \<lparr>get_param_num_from_sym = (\<lambda>s. if s = ''p'' then 0 else - 1),
      new_mtag_alias = (\<lambda>t e. Some (t + 1000)),
      get_mtag = (\<lambda>e. case e of EXPR_SYMBOL p n \<Rightarrow> if n = ''g'' then Some 77 else None
                       | _ \<Rightarrow> None),
      get_absolute_rl = (\<lambda>e. [(0, 10)]),
      mtag_expr_to_var = (\<lambda>e. case e of EXPR_SYMBOL p n \<Rightarrow> Some n | _ \<Rightarrow> None),
      strtoul = (\<lambda>s. if s = ''42+8'' then 42 else 0),
      atoi = (\<lambda>s. if s = ''8'' then 8 else 0)\<rparr>"

definition mtag_world0 :: mtag_world where
  "mtag_world0 = \<lparr>mtag_stree = Map.empty, mtag_alias = [], mtag_data = [], mtag_map = []\<rparr>"

section \<open>Notions used in the statements\<close>

text \<open>
  The expression's position carries one of the identifiers that \<^verbatim>\<open>get_units\<close> answers
  before it looks at the expression's type.
\<close>

definition idiom_at :: "host \<Rightarrow> position \<Rightarrow> bool" where
  "idiom_at h p =
     (pos_ident h p \<in> {Some ''sizeof'', Some ''PAGE_SIZE'', Some ''jiffies'',
        Some ''BITS_PER_LONG'', Some ''BITS_PER_LONG_LONG'', Some ''ARRAY_SIZE''})"

text \<open>An expression of type \<open>EXPR_SIZEOF\<close> or \<open>EXPR_PTRSIZEOF\<close>.\<close>

fun sizeof_shaped :: "expression \<Rightarrow> bool" where
  "sizeof_shaped (EXPR_SIZEOF p) = True"
| "sizeof_shaped (EXPR_PTRSIZEOF p) = True"
| "sizeof_shaped e = False"

text \<open>
  The parameter named \<open>a\<close> has a Concrete state at exit that is not its state at entry.
\<close>

definition changed :: "host \<Rightarrow> world \<Rightarrow> string \<Rightarrow> bool" where
  "changed h w a =
     (case stree w a of
        Some (State u) \<Rightarrow> start_states h a \<noteq> Some (State u)
      | _ \<Rightarrow> False)"

text \<open>The row of \<^verbatim>\<open>return_implies\<close> for the parameter \<open>a\<close> with index \<open>i\<close>.\<close>

definition return_fact :: "host \<Rightarrow> world \<Rightarrow> int \<Rightarrow> string \<Rightarrow> return_implies_row" where
  "return_fact h w i a =
     \<lparr>ri_file = base_file_id h, ri_function = function_name h, ri_static = fn_static h,
      ri_type = UNITS, ri_param = i, ri_key = ''$'',
      ri_value = (case stree w a of Some st \<Rightarrow> state_name st | None \<Rightarrow> [])\<rparr>"

text \<open>
  The argument is a bare formal parameter of the function being analysed: a symbol, with
  no wrapper, whose parameter number is not negative.
\<close>

definition bare_param :: "mtag_host \<Rightarrow> expression \<Rightarrow> bool" where
  "bare_param h arg =
     (case arg of EXPR_SYMBOL p symbol \<Rightarrow> 0 \<le> get_param_num_from_sym h symbol | _ \<Rightarrow> False)"

fun symbol_of :: "expression \<Rightarrow> string" where
  "symbol_of (EXPR_SYMBOL p symbol) = symbol"
| "symbol_of e = []"

section \<open>The merge hooks: properties\<close>

text \<open>
  C1, as stated: merge(Undefined, X) = X, merge(X, X) = X and merge(X, Y) = Merged for
  distinct Concrete X and Y; in particular a Concrete state merged with itself is that
  state. The two hooks have no test for equal states: merging the byte state with
  itself gives Merged, not the byte state.
\<close>

theorem merge_units_same_state_counterexample:
  "merge_units (State Byte) (State Byte) \<noteq> State Byte"
  by simp

text \<open>
  C1, amended: for both hooks, merge(Undefined, X) = X and merge(X, Undefined) = X for
  every X, and the merge of two Concrete states is Merged, whether they are distinct or
  the same state; merge(X, X) = X holds for the two sentinels Undefined and Merged.
\<close>

theorem merge_hooks_amended:
  "merge_units Undefined x = x \<and> merge_units x Undefined = x \<and>
   merge_units (State a) (State b) = Merged \<and>
   merge_units Merged Merged = Merged \<and>
   merge_tag_info Undefined y = y \<and> merge_tag_info y Undefined = y \<and>
   merge_tag_info (State c) (State d) = Merged \<and>
   merge_tag_info Merged Merged = Merged"
  by simp

text \<open>
  C7: the diagnostic before a merge is printed, once, when the two incoming states
  differ, unless the statement being walked is a return or one of the two states is
  Undefined or Merged; in every other case nothing is printed. So for two distinct
  Concrete states it is suppressed exactly at a return.
\<close>

theorem pre_merge_hook_fires:
  "pre_merge_hook h cur other out =
     (if sm_state cur \<noteq> sm_state other \<and>
         \<not> (cur_stmt h = Some STMT_RETURN \<or>
            sm_state cur \<in> {Undefined, Merged} \<or> sm_state other \<in> {Undefined, Merged})
      then out @ [Ambiguous_units_merge (sm_name cur) (state_name (sm_state cur))
                    (state_name (sm_state other))]
      else out)"
  by (auto simp: pre_merge_hook_def)

theorem pre_merge_hook_fires_witness:
  "pre_merge_hook host0 \<lparr>sm_name = ''x'', sm_state = State Byte\<rparr>
     \<lparr>sm_name = ''x'', sm_state = State Page\<rparr> [] =
     [Ambiguous_units_merge ''x'' ''byte'' ''page''] \<and>
   pre_merge_hook (host0\<lparr>cur_stmt := Some STMT_RETURN\<rparr>) \<lparr>sm_name = ''x'', sm_state = State Byte\<rparr>
     \<lparr>sm_name = ''x'', sm_state = State Page\<rparr> [] = [] \<and>
   pre_merge_hook host0 \<lparr>sm_name = ''x'', sm_state = State Byte\<rparr>
     \<lparr>sm_name = ''x'', sm_state = Merged\<rparr> [] = []"
  using pre_merge_hook_fires [of host0 "\<lparr>sm_name = ''x'', sm_state = State Byte\<rparr>"
          "\<lparr>sm_name = ''x'', sm_state = State Page\<rparr>" "[]"]
        pre_merge_hook_fires [of "host0\<lparr>cur_stmt := Some STMT_RETURN\<rparr>"
          "\<lparr>sm_name = ''x'', sm_state = State Byte\<rparr>"
          "\<lparr>sm_name = ''x'', sm_state = State Page\<rparr>" "[]"]
        pre_merge_hook_fires [of host0 "\<lparr>sm_name = ''x'', sm_state = State Byte\<rparr>"
          "\<lparr>sm_name = ''x'', sm_state = Merged\<rparr>" "[]"]
  by (simp add: host0_def)

section \<open>The hooks on binary expressions: properties\<close>

text \<open>
  C10: on a binary \<^verbatim>\<open>+\<close> or \<^verbatim>\<open>-\<close> whose left operand has pointer or array type, the
  two hooks of the units checker change nothing: no diagnostic is printed, no state is
  set and no row is stored, whatever the units of the operands.
\<close>

theorem pointer_arithmetic_ignored:
  assumes "op = OP_plus \<or> op = OP_minus"
    and "get_type h l = Some SYM_PTR \<or> get_type h l = Some SYM_ARRAY"
  shows "match_binop_check h (EXPR_BINOP p op l r) w = w \<and>
         match_binop_set h (EXPR_BINOP p op l r) w = w"
  using assms by auto

theorem pointer_arithmetic_ignored_witness:
  "get_type host0 (EXPR_SYMBOL 8 ''ptr'') = Some SYM_PTR \<and>
   get_units host0 world0 (Some (EXPR_SYMBOL 8 ''ptr'')) = Some (State Jiffy) \<and>
   get_units host0 world0 (Some (EXPR_SIZEOF 1)) = Some (State Byte) \<and>
   match_binop_check host0 (EXPR_BINOP 0 OP_plus (EXPR_SYMBOL 8 ''ptr'') (EXPR_SIZEOF 1)) world0
     = world0 \<and>
   match_binop_set host0 (EXPR_BINOP 0 OP_plus (EXPR_SYMBOL 8 ''ptr'') (EXPR_SIZEOF 1)) world0
     = world0"
  using pointer_arithmetic_ignored [of OP_plus host0 "EXPR_SYMBOL 8 ''ptr''" 0 "EXPR_SIZEOF 1" world0]
  by (simp add: get_units.simps host0_def)

text \<open>
  C2, as stated: when both operands of a \<^verbatim>\<open>+\<close> or \<^verbatim>\<open>-\<close> have known units, the
  ``missing conversion'' diagnostic is printed exactly once if and only if the units differ
  and neither is the array-size unit. The check has no test for the array-size unit:
  \<^verbatim>\<open>sizeof(x) + ARRAY_SIZE(a)\<close>, bytes plus an array size, prints the diagnostic.
\<close>

theorem missing_conversion_array_size_counterexample:
  "get_units host0 world0 (Some (EXPR_SIZEOF 1)) = Some (State Byte) \<and>
   get_units host0 world0 (Some (EXPR_SYMBOL 7 ''n'')) = Some (State Array_size) \<and>
   msgs (match_binop_check host0 (EXPR_BINOP 0 OP_plus (EXPR_SIZEOF 1) (EXPR_SYMBOL 7 ''n''))
           world0) =
     [Missing_conversion (EXPR_BINOP 0 OP_plus (EXPR_SIZEOF 1) (EXPR_SYMBOL 7 ''n''))
        ''byte'' OP_plus ''array_size'']"
  by (simp add: get_units.simps host0_def world0_def)

text \<open>
  C2, amended: when both operands of a \<^verbatim>\<open>+\<close> or \<^verbatim>\<open>-\<close> have known units, the
  ``missing conversion'' diagnostic is printed exactly once if the units differ and the
  left operand's static type is neither pointer nor array, and not at all otherwise; the
  array-size unit is treated like any other unit. Nothing else changes.
\<close>

theorem missing_conversion_amended:
  assumes "op = OP_plus \<or> op = OP_minus"
    and "get_units h w (Some l) = Some ls"
    and "get_units h w (Some r) = Some rs"
  shows "match_binop_check h (EXPR_BINOP p op l r) w =
           (if ls \<noteq> rs \<and> get_type h l \<noteq> Some SYM_PTR \<and> get_type h l \<noteq> Some SYM_ARRAY
            then w\<lparr>msgs := msgs w @
                     [Missing_conversion (EXPR_BINOP p op l r) (state_name ls) op
                        (state_name rs)]\<rparr>
            else w)"
  using assms by (auto simp: Let_def)

theorem missing_conversion_amended_witness:
  "get_units host0 world0 (Some (EXPR_SIZEOF 1)) = Some (State Byte) \<and>
   get_units host0 world0 (Some (EXPR_SYMBOL 8 ''t'')) = Some (State Jiffy) \<and>
   match_binop_check host0 (EXPR_BINOP 0 OP_minus (EXPR_SIZEOF 1) (EXPR_SYMBOL 8 ''t'')) world0 =
     world0\<lparr>msgs := [Missing_conversion (EXPR_BINOP 0 OP_minus (EXPR_SIZEOF 1) (EXPR_SYMBOL 8 ''t''))
                       ''byte'' OP_minus ''jiffy'']\<rparr>"
proof -
  have l: "get_units host0 world0 (Some (EXPR_SIZEOF 1)) = Some (State Byte)"
    by (simp add: get_units.simps)
  have r: "get_units host0 world0 (Some (EXPR_SYMBOL 8 ''t'')) = Some (State Jiffy)"
    by (simp add: get_units.simps host0_def)
  have t: "get_type host0 (EXPR_SIZEOF 1) = None"
    by (simp add: host0_def)
  show ?thesis
    using missing_conversion_amended [of OP_minus host0 world0 "EXPR_SIZEOF 1" "State Byte"
            "EXPR_SYMBOL 8 ''t''" "State Jiffy" 0] l r t
    by (simp add: world0_def)
qed

section \<open>The fact store: properties\<close>

lemma foldl_db_units_unknown: "foldl db_units (Some ''unknown'') xs = Some ''unknown''"
  by (induction xs) auto

lemma foldl_db_units_conflict:
  "\<exists>x\<in>set xs. x \<noteq> u \<Longrightarrow> foldl db_units (Some u) xs = Some ''unknown''"
proof (induction xs)
  case Nil
  then show ?case by simp
next
  case (Cons x xs)
  show ?case
  proof (cases "x = u")
    case True
    with Cons.prems have "\<exists>y\<in>set xs. y \<noteq> u" by auto
    with Cons.IH True show ?thesis by simp
  next
    case False
    then show ?thesis by (simp add: foldl_db_units_unknown)
  qed
qed

lemma foldl_db_units_two_values:
  assumes "v1 \<in> set xs" and "v2 \<in> set xs" and "v1 \<noteq> v2"
  shows "foldl db_units None xs = Some ''unknown''"
proof (cases xs)
  case Nil
  with assms show ?thesis by simp
next
  case (Cons x rest)
  from assms Cons have "(v1 \<noteq> x \<and> v1 \<in> set rest) \<or> (v2 \<noteq> x \<and> v2 \<in> set rest)"
    by auto
  then have "\<exists>y\<in>set rest. y \<noteq> x" by blast
  then show ?thesis using Cons by (simp add: foldl_db_units_conflict)
qed

lemma lookup_units_foldl:
  "lookup_units h w m =
     foldl db_units None (select_value (cache_type_info w) UNITS m @ select_value (db_type_info h) UNITS m)"
  by (simp add: lookup_units_def run_query_def)

lemma lookup_units_two_values:
  assumes "v1 \<in> set (select_value (cache_type_info w) UNITS m)"
    and "v2 \<in> set (select_value (cache_type_info w) UNITS m)" and "v1 \<noteq> v2"
  shows "lookup_units h w m = Some ''unknown''"
  unfolding lookup_units_foldl
  by (rule foldl_db_units_two_values [of v1 _ v2]) (use assms in auto)

lemma cache_store_type_in_db:
  assumes "get_member_name h e = Some m" and "\<not> is_ignored_type (Some m)"
  shows "cache_type_info (store_type_in_db h e st w) =
           cache_type_info w @
             [\<lparr>ti_file = base_file_id h, ti_type = UNITS, ti_key = m, ti_value = state_name st\<rparr>]"
  using assms
  by (auto simp: store_type_in_db_def sql_insert_cache_type_info_def Let_def split: option.splits)

lemma unit_name_inj: "unit_name u1 = unit_name u2 \<Longrightarrow> u1 = u2"
  by (cases u1; cases u2) simp_all

lemma get_units_member:
  assumes "strip e = EXPR_DEREF p b mem" and "\<not> idiom_at h p"
    and "get_state_expr h w (EXPR_DEREF p b mem) = None"
  shows "get_units h w (Some e) = get_units_from_type h w (EXPR_DEREF p b mem)"
  using assms by (simp add: get_units.simps idiom_at_def)

lemma store_member0_twice:
  "store_type_in_db host0 member0 (State Page) (store_type_in_db host0 member0 (State Byte) world0) =
   world0\<lparr>cache_type_info :=
       [\<lparr>ti_file = 1, ti_type = UNITS, ti_key = ''(struct s)->len'', ti_value = ''byte''\<rparr>,
        \<lparr>ti_file = 1, ti_type = UNITS, ti_key = ''(struct s)->len'', ti_value = ''page''\<rparr>],
     msgs := [Other_places_set ''(struct s)->len'' ''byte'' ''page'']\<rparr>"
  by (simp add: store_type_in_db_def member0_def host0_def world0_def is_ignored_type_def
      get_units_from_type_def lookup_units_def run_query_def select_value_def
      sql_insert_cache_type_info_def)

text \<open>
  C3, as stated: once two distinct unit values have been inserted for a member key, the
  lookup of that key gives the unknown sentinel, so that \<^verbatim>\<open>get_units\<close> yields no unit.
  For the member \<^verbatim>\<open>(struct vm_area_struct)->vm_pgoff\<close> the lookup is answered with the
  page unit before the store is read: after the byte and the page unit have been stored
  for it, \<^verbatim>\<open>get_units\<close> yields the page unit.
\<close>

theorem vm_pgoff_lookup_counterexample:
  "map ti_value (cache_type_info
      (store_type_in_db host0 vm_pgoff0 (State Page)
         (store_type_in_db host0 vm_pgoff0 (State Byte) world0))) = [''byte'', ''page''] \<and>
   get_units host0
      (store_type_in_db host0 vm_pgoff0 (State Page)
         (store_type_in_db host0 vm_pgoff0 (State Byte) world0)) (Some vm_pgoff0) = Some (State Page)"
  by (simp add: store_type_in_db_def vm_pgoff0_def host0_def world0_def is_ignored_type_def
      get_units_from_type_def get_units.simps get_state_expr_def
      sql_insert_cache_type_info_def)

text \<open>
  C3, amended: once two distinct unit values have been stored for a member key, the
  query of the store for that key gives \<^verbatim>\<open>unknown\<close>, which names no unit, and this never
  reverts: it stays so after a third insert equal to the first and after any later
  inserts. Hence \<^verbatim>\<open>get_units_from_type\<close> yields no unit for every member key but
  \<^verbatim>\<open>(struct vm_area_struct)->vm_pgoff\<close>, which is always the page unit, and
  \<^verbatim>\<open>get_units\<close> yields no unit for such a member access when it falls back on the store
  (no idiom at its position, no state on the path).
\<close>

theorem fact_store_widening:
  assumes "get_member_name h e = Some m" and "\<not> is_ignored_type (Some m)" and "u1 \<noteq> u2"
    and "w2 = store_type_in_db h e (State u2) (store_type_in_db h e (State u1) w)"
    and "cache_type_info w3 = cache_type_info w2 @ later"
  shows "lookup_units h w2 m = Some ''unknown'' \<and>
         lookup_units h (store_type_in_db h e (State u1) w2) m = Some ''unknown'' \<and>
         lookup_units h w3 m = Some ''unknown'' \<and>
         str_to_units (Some ''unknown'') = None \<and>
         get_units_from_type h w3 e =
           (if m = ''(struct vm_area_struct)->vm_pgoff'' then Some (State Page) else None) \<and>
         (m \<noteq> ''(struct vm_area_struct)->vm_pgoff'' \<and> e = EXPR_DEREF p b mem \<and>
          \<not> idiom_at h p \<and> get_state_expr h w3 e = None
            \<longrightarrow> get_units h w3 (Some e) = None)"
proof -
  let ?r1 = "\<lparr>ti_file = base_file_id h, ti_type = UNITS, ti_key = m, ti_value = unit_name u1\<rparr>"
  let ?r2 = "\<lparr>ti_file = base_file_id h, ti_type = UNITS, ti_key = m, ti_value = unit_name u2\<rparr>"
  have c2: "cache_type_info w2 = cache_type_info w @ [?r1, ?r2]"
    using assms(1,2,4) by (simp add: cache_store_type_in_db)
  have ne: "unit_name u1 \<noteq> unit_name u2"
    using assms(3) unit_name_inj by blast
  have two: "unit_name u1 \<in> set (select_value (cache_type_info w') UNITS m) \<and>
             unit_name u2 \<in> set (select_value (cache_type_info w') UNITS m)"
    if "cache_type_info w' = cache_type_info w2 @ xs" for w' xs
    using that c2 by (simp add: select_value_def)
  have l: "lookup_units h w' m = Some ''unknown''"
    if "cache_type_info w' = cache_type_info w2 @ xs" for w' xs
    using two [OF that] ne lookup_units_two_values by blast
  have l2: "lookup_units h w2 m = Some ''unknown''"
    by (rule l [of w2 "[]"]) simp
  have l3: "lookup_units h (store_type_in_db h e (State u1) w2) m = Some ''unknown''"
    by (rule l [of _ "[?r1]"]) (use assms(1,2) in \<open>simp add: cache_store_type_in_db\<close>)
  have l4: "lookup_units h w3 m = Some ''unknown''"
    by (rule l [OF assms(5)])
  have g: "get_units_from_type h w3 e =
           (if m = ''(struct vm_area_struct)->vm_pgoff'' then Some (State Page) else None)"
    using assms(1) l4 by (simp add: get_units_from_type_def)
  have gu: "get_units h w3 (Some e) = None"
    if "m \<noteq> ''(struct vm_area_struct)->vm_pgoff''" "e = EXPR_DEREF p b mem"
       "\<not> idiom_at h p" "get_state_expr h w3 e = None"
    using that g get_units_member [of e p b mem h w3] by simp
  have s: "str_to_units (Some ''unknown'') = None"
    by simp
  show ?thesis
  proof (intro conjI impI)
    assume "m \<noteq> ''(struct vm_area_struct)->vm_pgoff'' \<and> e = EXPR_DEREF p b mem \<and>
            \<not> idiom_at h p \<and> get_state_expr h w3 e = None"
    then show "get_units h w3 (Some e) = None"
      using gu by (elim conjE)
  qed (fact l2 l3 l4 s g)+
qed

theorem fact_store_widening_witness:
  "lookup_units host0
     (store_type_in_db host0 member0 (State Page) (store_type_in_db host0 member0 (State Byte) world0))
     ''(struct s)->len'' = Some ''unknown'' \<and>
   lookup_units host0
     (store_type_in_db host0 member0 (State Byte)
       (store_type_in_db host0 member0 (State Page) (store_type_in_db host0 member0 (State Byte) world0)))
     ''(struct s)->len'' = Some ''unknown'' \<and>
   get_units host0
     (store_type_in_db host0 member0 (State Byte)
       (store_type_in_db host0 member0 (State Page) (store_type_in_db host0 member0 (State Byte) world0)))
     (Some member0) = None"
proof -
  let ?w2 = "store_type_in_db host0 member0 (State Page) (store_type_in_db host0 member0 (State Byte) world0)"
  let ?w3 = "store_type_in_db host0 member0 (State Byte) ?w2"
  let ?r = "\<lparr>ti_file = 1, ti_type = UNITS, ti_key = ''(struct s)->len'', ti_value = ''byte''\<rparr>"
  have m: "get_member_name host0 member0 = Some ''(struct s)->len''"
    by (simp add: host0_def member0_def)
  have i: "\<not> is_ignored_type (Some ''(struct s)->len'')"
    by (simp add: is_ignored_type_def)
  have c: "cache_type_info ?w3 = cache_type_info ?w2 @ [?r]"
    using cache_store_type_in_db [OF m i, of "State Byte" ?w2] by (simp add: host0_def)
  have s: "get_state_expr host0 ?w3 member0 = None"
    unfolding store_member0_twice
    by (simp add: store_type_in_db_def member0_def host0_def world0_def is_ignored_type_def
      get_units_from_type_def lookup_units_def run_query_def select_value_def
      sql_insert_cache_type_info_def get_state_expr_def)
  have d: "\<not> idiom_at host0 0"
    by (simp add: idiom_at_def host0_def)
  show ?thesis
    using fact_store_widening [OF m i, of Byte Page ?w2 world0 ?w3 "[?r]" 0 "EXPR_SYMBOL 0 ''s''" "''(struct s)->len''"]
      c s d
    by (simp add: member0_def)
qed

section \<open>Units inference: properties\<close>

lemma get_units_sizeof_shaped:
  "sizeof_shaped (strip e) \<Longrightarrow> get_units h w (Some e) = Some (State Byte)"
  by (cases "strip e") (simp_all add: get_units.simps)

lemma get_units_ident:
  assumes "\<not> sizeof_shaped (strip e)"
  shows "get_units h w (Some e) =
     (let ident = pos_ident h (pos (strip e)) in
      if ident = Some ''sizeof'' \<or> ident = Some ''PAGE_SIZE'' then Some (State Byte)
      else if ident = Some ''jiffies'' then Some (State Jiffy)
      else if ident = Some ''BITS_PER_LONG'' then Some (State Bit)
      else if ident = Some ''BITS_PER_LONG_LONG'' then Some (State Bit)
      else if ident = Some ''ARRAY_SIZE'' then Some (State Array_size)
      else (case strip e of
              EXPR_BINOP p op left right \<Rightarrow> binop_helper h w left op right
            | EXPR_CALL p fn args \<Rightarrow> get_units_call (strip e)
            | _ \<Rightarrow>
               (let state = get_state_expr h w (strip e) in
                if state = Some Merged \<or> state = Some Undefined then None
                else if state \<noteq> None then state
                else get_units_from_type h w (strip e))))"
  using assms by (cases "strip e") (simp_all add: get_units.simps Let_def)

text \<open>
  C6: \<^verbatim>\<open>get_units\<close> of a sizeof-shaped expression, under any wrappers, is the byte unit
  whatever the host, the path states and the store hold; and for any other expression
  the identifier at its position decides, before any state or store is read:
  \<^verbatim>\<open>sizeof\<close> and \<^verbatim>\<open>PAGE_SIZE\<close> give bytes, \<^verbatim>\<open>jiffies\<close> gives jiffies,
  \<^verbatim>\<open>BITS_PER_LONG\<close> and \<^verbatim>\<open>BITS_PER_LONG_LONG\<close> give bits, \<^verbatim>\<open>ARRAY_SIZE\<close> gives the
  array-size unit.
\<close>

theorem get_units_idioms:
  "(sizeof_shaped (strip e) \<longrightarrow> get_units h w (Some e) = Some (State Byte)) \<and>
   (\<not> sizeof_shaped (strip e) \<longrightarrow>
      (pos_ident h (pos (strip e)) = Some ''sizeof'' \<longrightarrow> get_units h w (Some e) = Some (State Byte)) \<and>
      (pos_ident h (pos (strip e)) = Some ''PAGE_SIZE'' \<longrightarrow> get_units h w (Some e) = Some (State Byte)) \<and>
      (pos_ident h (pos (strip e)) = Some ''jiffies'' \<longrightarrow> get_units h w (Some e) = Some (State Jiffy)) \<and>
      (pos_ident h (pos (strip e)) = Some ''BITS_PER_LONG'' \<longrightarrow> get_units h w (Some e) = Some (State Bit)) \<and>
      (pos_ident h (pos (strip e)) = Some ''BITS_PER_LONG_LONG'' \<longrightarrow> get_units h w (Some e) = Some (State Bit)) \<and>
      (pos_ident h (pos (strip e)) = Some ''ARRAY_SIZE'' \<longrightarrow> get_units h w (Some e) = Some (State Array_size)))"
  by (simp add: get_units_sizeof_shaped get_units_ident)

theorem get_units_idioms_witness:
  "sizeof_shaped (strip (EXPR_CAST 0 (EXPR_PREOP 0 OP_paren (EXPR_SIZEOF 8)))) \<and>
   get_units host0 world0 (Some (EXPR_CAST 0 (EXPR_PREOP 0 OP_paren (EXPR_SIZEOF 8)))) =
     Some (State Byte) \<and>
   get_units host0 world0 (Some (EXPR_SYMBOL 8 ''t'')) = Some (State Jiffy) \<and>
   get_units host0 world0 (Some (EXPR_SYMBOL 9 ''b'')) = Some (State Bit) \<and>
   get_units host0 world0 (Some (EXPR_SYMBOL 7 ''n'')) = Some (State Array_size)"
  using get_units_idioms [of "EXPR_CAST 0 (EXPR_PREOP 0 OP_paren (EXPR_SIZEOF 8))" host0 world0]
        get_units_idioms [of "EXPR_SYMBOL 8 ''t''" host0 world0]
        get_units_idioms [of "EXPR_SYMBOL 9 ''b''" host0 world0]
        get_units_idioms [of "EXPR_SYMBOL 7 ''n''" host0 world0]
  by (simp add: host0_def)

lemma get_units_binop_reached:
  assumes "strip e = EXPR_BINOP p op l r" and "\<not> idiom_at h p"
  shows "get_units h w (Some e) = binop_helper h w l op r"
  using assms by (simp add: get_units_ident idiom_at_def)

text \<open>
  C4, as stated: for every binary expression \<^verbatim>\<open>get_units\<close> follows the rules for
  \<^verbatim>\<open>*\<close>, \<^verbatim>\<open>/\<close> and the shifts, and is unknown for every other operand shape. The
  identifier at the expression's position is looked at first: a product at a position
  whose identifier is \<^verbatim>\<open>BITS_PER_LONG\<close> (the expansion of such a macro), with a right
  operand that is neither the page size nor 4096, has the bit unit.
\<close>

theorem binop_units_idiom_counterexample:
  "\<not> is_PAGE_SIZE host0 (EXPR_VALUE 9 8) \<and>
   get_implied_value host0 (EXPR_VALUE 9 8) = Some 8 \<and>
   get_units host0 world0 (Some (EXPR_BINOP 9 OP_star (EXPR_VALUE 9 8) (EXPR_VALUE 9 8))) = Some (State Bit)"
  by (simp add: get_units.simps host0_def is_PAGE_SIZE_def)

text \<open>
  C4, amended: for every binary expression whose position carries none of the
  identifiers \<^verbatim>\<open>sizeof\<close>, \<^verbatim>\<open>PAGE_SIZE\<close>, \<^verbatim>\<open>jiffies\<close>, \<^verbatim>\<open>BITS_PER_LONG\<close>,
  \<^verbatim>\<open>BITS_PER_LONG_LONG\<close>, \<^verbatim>\<open>ARRAY_SIZE\<close>, \<^verbatim>\<open>get_units\<close> is: for \<^verbatim>\<open>*\<close>, bytes when
  the right operand is in \<^verbatim>\<open>PAGE_SIZE\<close> or has implied value 4096; for \<^verbatim>\<open>/\<close>, longs when
  the right operand is in \<^verbatim>\<open>BITS_PER_LONG\<close>, else pages when it is in \<^verbatim>\<open>PAGE_SIZE\<close> or has
  implied value 4096; for a left shift by \<^verbatim>\<open>PAGE_SHIFT\<close>, bytes; for a right shift by
  \<^verbatim>\<open>PAGE_SHIFT\<close>, pages; and unknown for every other operand of these four operators.
\<close>

theorem binop_units_amended:
  assumes "strip e = EXPR_BINOP p op l r" and "\<not> idiom_at h p"
  shows "(op = OP_star \<longrightarrow> get_units h w (Some e) =
            (if is_PAGE_SIZE h r \<or> get_implied_value h r = Some 4096 then Some (State Byte) else None)) \<and>
         (op = OP_slash \<longrightarrow> get_units h w (Some e) =
            (if is_BITS_PER_LONG h r then Some (State Longs)
             else if is_PAGE_SIZE h r \<or> get_implied_value h r = Some 4096 then Some (State Page)
             else None)) \<and>
         (op = SPECIAL_LEFTSHIFT \<longrightarrow> get_units h w (Some e) =
            (if is_PAGE_SHIFT h r then Some (State Byte) else None)) \<and>
         (op = SPECIAL_RIGHTSHIFT \<longrightarrow> get_units h w (Some e) =
            (if is_PAGE_SHIFT h r then Some (State Page) else None))"
  unfolding get_units_binop_reached [OF assms]
  by (auto simp: binop_helper.simps split: option.splits)

theorem binop_units_amended_witness:
  "get_units host0 world0
     (Some (EXPR_PREOP 0 OP_paren (EXPR_BINOP 0 OP_star (EXPR_SYMBOL 0 ''n'') (EXPR_VALUE 0 4096))))
     = Some (State Byte) \<and>
   get_units host0 world0 (Some (EXPR_BINOP 0 OP_star (EXPR_SYMBOL 0 ''n'') (EXPR_VALUE 0 5)))
     = None \<and>
   get_units host0 world0 (Some (EXPR_BINOP 0 OP_slash (EXPR_SYMBOL 0 ''n'') (EXPR_VALUE 0 4096)))
     = Some (State Page) \<and>
   get_units host0 world0 (Some (EXPR_BINOP 0 OP_slash (EXPR_SYMBOL 0 ''n'') (EXPR_VALUE 22 64)))
     = Some (State Longs) \<and>
   get_units host0 world0
     (Some (EXPR_BINOP 0 SPECIAL_LEFTSHIFT (EXPR_SYMBOL 0 ''n'') (EXPR_VALUE 21 12)))
     = Some (State Byte) \<and>
   get_units host0 world0
     (Some (EXPR_BINOP 0 SPECIAL_RIGHTSHIFT (EXPR_SYMBOL 0 ''n'') (EXPR_VALUE 21 12)))
     = Some (State Page)"
proof -
  have d: "\<not> idiom_at host0 0"
    by (simp add: idiom_at_def host0_def)
  show ?thesis
    using binop_units_amended [of "EXPR_PREOP 0 OP_paren
              (EXPR_BINOP 0 OP_star (EXPR_SYMBOL 0 ''n'') (EXPR_VALUE 0 4096))"
            0 OP_star "EXPR_SYMBOL 0 ''n''" "EXPR_VALUE 0 4096" host0 world0]
          binop_units_amended [of "EXPR_BINOP 0 OP_star (EXPR_SYMBOL 0 ''n'') (EXPR_VALUE 0 5)"
            0 OP_star "EXPR_SYMBOL 0 ''n''" "EXPR_VALUE 0 5" host0 world0]
          binop_units_amended [of "EXPR_BINOP 0 OP_slash (EXPR_SYMBOL 0 ''n'') (EXPR_VALUE 0 4096)"
            0 OP_slash "EXPR_SYMBOL 0 ''n''" "EXPR_VALUE 0 4096" host0 world0]
          binop_units_amended [of "EXPR_BINOP 0 OP_slash (EXPR_SYMBOL 0 ''n'') (EXPR_VALUE 22 64)"
            0 OP_slash "EXPR_SYMBOL 0 ''n''" "EXPR_VALUE 22 64" host0 world0]
          binop_units_amended [of "EXPR_BINOP 0 SPECIAL_LEFTSHIFT (EXPR_SYMBOL 0 ''n'') (EXPR_VALUE 21 12)"
            0 SPECIAL_LEFTSHIFT "EXPR_SYMBOL 0 ''n''" "EXPR_VALUE 21 12" host0 world0]
          binop_units_amended [of "EXPR_BINOP 0 SPECIAL_RIGHTSHIFT (EXPR_SYMBOL 0 ''n'') (EXPR_VALUE 21 12)"
            0 SPECIAL_RIGHTSHIFT "EXPR_SYMBOL 0 ''n''" "EXPR_VALUE 21 12" host0 world0]
          d
    by (simp add: host0_def is_PAGE_SIZE_def is_PAGE_SHIFT_def is_BITS_PER_LONG_def)
qed

text \<open>
  C5, as stated: for every binary \<^verbatim>\<open>+\<close> or \<^verbatim>\<open>-\<close>, \<^verbatim>\<open>get_units\<close> is unknown when an
  operand has the array-size unit, and else the left operand's unit if known, else the
  right one's. The identifier at the expression's position is looked at first: the sum
  that \<^verbatim>\<open>ARRAY_SIZE(a)\<close> expands to, \<^verbatim>\<open>sizeof(a) / sizeof(a[0]) + 0\<close> at the position of
  \<^verbatim>\<open>ARRAY_SIZE\<close>, has a left operand of array-size unit and has the array-size unit itself.
\<close>

theorem add_sub_units_idiom_counterexample:
  "get_units host0 world0 (Some (EXPR_BINOP 7 OP_slash (EXPR_SIZEOF 7) (EXPR_SIZEOF 7))) = Some (State Array_size) \<and>
   get_units host0 world0
     (Some (EXPR_BINOP 7 OP_plus (EXPR_BINOP 7 OP_slash (EXPR_SIZEOF 7) (EXPR_SIZEOF 7)) (EXPR_VALUE 7 0)))
     = Some (State Array_size)"
  by (simp add: get_units.simps host0_def)

text \<open>
  C5, amended: for every binary \<^verbatim>\<open>+\<close> or \<^verbatim>\<open>-\<close> whose position carries none of the
  identifiers \<^verbatim>\<open>sizeof\<close>, \<^verbatim>\<open>PAGE_SIZE\<close>, \<^verbatim>\<open>jiffies\<close>, \<^verbatim>\<open>BITS_PER_LONG\<close>,
  \<^verbatim>\<open>BITS_PER_LONG_LONG\<close>, \<^verbatim>\<open>ARRAY_SIZE\<close>, \<^verbatim>\<open>get_units\<close> is unknown when an operand
  has the array-size unit, and else the left operand's unit if known, else the right
  operand's unit.
\<close>

theorem add_sub_units_amended:
  assumes "strip e = EXPR_BINOP p op l r" and "\<not> idiom_at h p"
    and "op = OP_plus \<or> op = OP_minus"
  shows "get_units h w (Some e) =
           (if get_units h w (Some l) = Some (State Array_size) \<or>
               get_units h w (Some r) = Some (State Array_size) then None
            else if get_units h w (Some l) \<noteq> None then get_units h w (Some l)
            else get_units h w (Some r))"
  unfolding get_units_binop_reached [OF assms(1,2)]
  using assms(3) by (auto simp: binop_helper.simps Let_def)

theorem add_sub_units_amended_witness:
  "get_units host0 world0 (Some (EXPR_SYMBOL 0 ''x'')) = None \<and>
   get_units host0 world0 (Some (EXPR_BINOP 0 OP_plus (EXPR_SYMBOL 0 ''x'') (EXPR_SYMBOL 8 ''t'')))
     = Some (State Jiffy) \<and>
   get_units host0 world0 (Some (EXPR_BINOP 0 OP_minus (EXPR_SIZEOF 1) (EXPR_SYMBOL 8 ''t'')))
     = Some (State Byte) \<and>
   get_units host0 world0 (Some (EXPR_BINOP 0 OP_minus (EXPR_SIZEOF 1) (EXPR_SYMBOL 7 ''n'')))
     = None"
proof -
  have d: "\<not> idiom_at host0 0"
    by (simp add: idiom_at_def host0_def)
  have x: "get_units host0 world0 (Some (EXPR_SYMBOL 0 ''x'')) = None"
    by (simp add: get_units.simps host0_def world0_def get_state_expr_def get_units_from_type_def)
  have t: "get_units host0 world0 (Some (EXPR_SYMBOL 8 ''t'')) = Some (State Jiffy)"
    by (simp add: get_units.simps host0_def)
  have n: "get_units host0 world0 (Some (EXPR_SYMBOL 7 ''n'')) = Some (State Array_size)"
    by (simp add: get_units.simps host0_def)
  have s: "get_units host0 world0 (Some (EXPR_SIZEOF 1)) = Some (State Byte)"
    by (simp add: get_units.simps)
  show ?thesis
    using add_sub_units_amended [of "EXPR_BINOP 0 OP_plus (EXPR_SYMBOL 0 ''x'') (EXPR_SYMBOL 8 ''t'')"
            0 OP_plus "EXPR_SYMBOL 0 ''x''" "EXPR_SYMBOL 8 ''t''" host0 world0]
          add_sub_units_amended [of "EXPR_BINOP 0 OP_minus (EXPR_SIZEOF 1) (EXPR_SYMBOL 8 ''t'')"
            0 OP_minus "EXPR_SIZEOF 1" "EXPR_SYMBOL 8 ''t''" host0 world0]
          add_sub_units_amended [of "EXPR_BINOP 0 OP_minus (EXPR_SIZEOF 1) (EXPR_SYMBOL 7 ''n'')"
            0 OP_minus "EXPR_SIZEOF 1" "EXPR_SYMBOL 7 ''n''" host0 world0]
          d x t n s
    by simp
qed

section \<open>The summary at function exit: properties\<close>

lemma changed_cache [simp]:
  "changed h (w\<lparr>cache_return_implies := c\<rparr>) a = changed h w a"
  by (simp add: changed_def)

lemma return_fact_cache [simp]:
  "return_fact h (w\<lparr>cache_return_implies := c\<rparr>) i a = return_fact h w i a"
  by (simp add: return_fact_def)

lemma changed_iff:
  "changed h w a \<longleftrightarrow>
     \<not> (stree w a = None \<or> stree w a = Some Merged \<or> stree w a = Some Undefined) \<and>
     stree w a \<noteq> start_states h a"
  by (auto simp: changed_def split: option.splits smatch_state.splits)

lemma upt_shift: "[0..<Suc m] = 0 # map Suc [0..<m]"
  by (simp add: upt_conv_Cons map_Suc_upt del: upt_Suc)

lemma process_args_rows:
  "process_args h args n w =
     w\<lparr>cache_return_implies := cache_return_implies w @
          map (\<lambda>k. return_fact h w (n + 1 + int k) (args ! k))
            (filter (\<lambda>k. changed h w (args ! k)) [0..<length args])\<rparr>"
proof (induction args arbitrary: n w)
  case Nil
  show ?case by simp
next
  case (Cons a args)
  have sh: "[0..<length (a # args)] = 0 # map Suc [0..<length args]"
    using upt_shift [of "length args"] by simp
  have arith: "n + 1 + 1 + int k = n + 1 + int (Suc k)" for k
    by simp
  show ?case
  proof (cases "changed h w a")
    case True
    then have step: "process_args h (a # args) n w =
        process_args h args (n + 1)
          (w\<lparr>cache_return_implies := cache_return_implies w @ [return_fact h w (n + 1) a]\<rparr>)"
      by (auto simp: changed_iff return_fact_def Let_def)
    show ?thesis
      unfolding step Cons.IH sh
      using True by (simp add: filter_map o_def algebra_simps del: upt_Suc)
  next
    case False
    then have step: "process_args h (a # args) n w = process_args h args (n + 1) w"
      by (auto simp: changed_iff Let_def)
    show ?thesis
      unfolding step Cons.IH sh
      using False by (simp add: filter_map o_def algebra_simps del: upt_Suc)
  qed
qed

text \<open>
  C8: at function exit \<^verbatim>\<open>process_states\<close> appends to \<^verbatim>\<open>return_implies\<close> one units
  row for each formal parameter, in order and under its index, whose state at exit is a
  Concrete state different from its state at entry, and nothing else changes; a parameter
  whose state is unchanged, Undefined, Merged or absent gets no row.
\<close>

theorem process_states_facts:
  "process_states h w =
     w\<lparr>cache_return_implies := cache_return_implies w @
          map (\<lambda>k. return_fact h w (int k) (arguments h ! k))
            (filter (\<lambda>k. changed h w (arguments h ! k)) [0..<length (arguments h)])\<rparr> \<and>
   (changed h w a \<longleftrightarrow>
      (\<exists>u. stree w a = Some (State u)) \<and> stree w a \<noteq> start_states h a) \<and>
   (stree w a = start_states h a \<or> stree w a = None \<or> stree w a = Some Undefined \<or>
    stree w a = Some Merged \<longrightarrow> \<not> changed h w a)"
  by (auto simp: process_states_def process_args_rows changed_def
      split: option.splits smatch_state.splits)

theorem process_states_facts_witness:
  "process_states host0 world1 =
     world1\<lparr>cache_return_implies :=
        [\<lparr>ri_file = 1, ri_function = ''f'', ri_static = False, ri_type = UNITS, ri_param = 2,
          ri_key = ''$'', ri_value = ''jiffy''\<rparr>]\<rparr> \<and>
   \<not> changed host0 world1 ''p'' \<and> \<not> changed host0 world1 ''q'' \<and> changed host0 world1 ''r''"
  using process_states_facts [of host0 world1 "''p''"]
  by (simp add: host0_def world1_def world0_def changed_def return_fact_def upt_shift
      del: upt_Suc)

section \<open>Heap-tag propagation: properties\<close>

lemma propogate_assignment_bare:
  assumes "get_argument_from_call_expr (call_args expr) param = Some arg"
  shows "propogate_assignment h expr param tag offset w =
     (if bare_param h arg
      then (True, set_state_expr_mtag h arg
                    (alloc_tag_data_state tag (''$->['' @ show_int (sint offset) @ '']'') offset
                       (get_param_num_from_sym h (symbol_of arg))) w)
      else (False, w))"
  using assms
  by (cases arg) (auto simp: propogate_assignment_def bare_param_def Let_def)

lemma assign_to_alias_rows:
  assumes "get_argument_from_call_expr (call_args expr) param = Some arg"
  shows "assign_to_alias h expr param tag offset w =
     (case new_mtag_alias h tag expr of
        None \<Rightarrow> w
      | Some alias \<Rightarrow>
          w\<lparr>mtag_alias := mtag_alias w @ [(tag, alias)],
            mtag_data := mtag_data w @
              [\<lparr>md_tag = alias, md_name = [], md_offset = offset, md_rl = get_absolute_rl h arg\<rparr>],
            mtag_map := (case get_mtag h arg of
                           Some arg_tag \<Rightarrow> mtag_map w @
                             [\<lparr>mm_tag = arg_tag, mm_offset = - offset, mm_container = alias\<rparr>]
                         | None \<Rightarrow> mtag_map w)\<rparr>)"
  using assms
  by (auto simp: assign_to_alias_def create_mtag_alias_def insert_mtag_data_def
      sql_insert_mtag_map_def Let_def split: option.splits)

text \<open>
  The offset of the map row is the machine's negation of a 32-bit \<^verbatim>\<open>int\<close>; read as a
  signed number it is the negated offset for every offset but the least one.
\<close>

lemma sint_neg_offset:
  fixes offset :: "32 word"
  assumes "sint offset \<noteq> - (2 ^ 31)"
  shows "sint (- offset) = - sint offset"
proof -
  have lo: "- (2 ^ 31) \<le> sint offset" using sint_ge [of offset] by simp
  have hi: "sint offset < 2 ^ 31" using sint_lt [of offset] by simp
  have "sint (- offset) = signed_take_bit 31 (- sint offset)"
    by (simp add: sint_word_ariths)
  also have "\<dots> = - sint offset"
    using lo hi assms by (simp add: signed_take_bit_int_eq_self_iff)
  finally show ?thesis .
qed

text \<open>
  C9, as stated: at a call site that consumes a stored-to-mtag return fact, when the
  argument is not a bare formal parameter of the caller, a fresh alias is created for
  the callee's tag and mtag data is persisted against it. \<^verbatim>\<open>assign_to_alias\<close> returns
  when \<^verbatim>\<open>create_mtag_alias\<close> fails: with a host that hands out no alias, the call
  \<^verbatim>\<open>x = reg(g)\<close>, whose argument \<^verbatim>\<open>g\<close> is not a parameter, leaves no alias, no mtag
  data and no map row.
\<close>

theorem mtag_no_alias_counterexample:
  "\<not> bare_param (mtag_host0\<lparr>new_mtag_alias := \<lambda>t e. None\<rparr>) (EXPR_SYMBOL 0 ''g'') \<and>
   call_does_mtag_assign (mtag_host0\<lparr>new_mtag_alias := \<lambda>t e. None\<rparr>)
     (EXPR_ASSIGNMENT 0 OP_assign (EXPR_SYMBOL 0 ''x'')
        (EXPR_CALL 0 (EXPR_SYMBOL 0 ''reg'') [EXPR_SYMBOL 0 ''g''])) 0 ''$'' ''42+8'' mtag_world0 =
     \<lparr>mtag_stree = Map.empty, mtag_alias = [], mtag_data = [], mtag_map = []\<rparr>"
  by (simp add: call_does_mtag_assign_def propogate_assignment_def assign_to_alias_def
      create_mtag_alias_def get_argument_from_call_expr_def after_plus_def bare_param_def
      mtag_host0_def mtag_world0_def)

text \<open>
  C9, amended: a call site consumes a stored-to-mtag return fact (the expression is a
  call, tag and offset are read from the value) for the argument at index \<open>param\<close>.
  If that argument is a bare formal parameter of the caller, the state named
  \<^verbatim>\<open>$->[offset]\<close> that carries the callee's tag, the offset and the caller's parameter
  number is set on the argument's variable, and no alias, mtag data or map row is made.
  Otherwise the host is asked for an alias of the callee's tag at this call. If it hands
  one out, the alias is recorded, one mtag data row is stored against the alias at the
  fact's offset, and, only when the caller's own tag of the argument resolves, one map
  row of that tag, the negated offset and the alias. If it hands none out, nothing is
  stored. That the alias is fresh is left to the host.
\<close>

theorem mtag_call_site_amended:
  assumes "skip_assignments expr0 = EXPR_CALL p fn args"
    and "after_plus val = Some rest"
    and "get_argument_from_call_expr args param = Some arg"
    and "tag = strtoul h val" and "offset = atoi h rest"
    and "w' = call_does_mtag_assign h expr0 param key val w"
  shows "(bare_param h arg \<longrightarrow>
            w' = (case mtag_expr_to_var h arg of
                    None \<Rightarrow> w
                  | Some name \<Rightarrow>
                      w\<lparr>mtag_stree := (mtag_stree w)(name \<mapsto>
                          State \<lparr>td_name = ''$->['' @ show_int (sint offset) @ '']'',
                                 td_data = \<lparr>tai_tag = tag, tai_offset = offset,
                                   tai_param = get_param_num_from_sym h (symbol_of arg)\<rparr>\<rparr>)\<rparr>) \<and>
            mtag_alias w' = mtag_alias w \<and> mtag_data w' = mtag_data w \<and>
            mtag_map w' = mtag_map w) \<and>
         (\<not> bare_param h arg \<longrightarrow>
            w' = (case new_mtag_alias h tag (EXPR_CALL p fn args) of
                    None \<Rightarrow> w
                  | Some alias \<Rightarrow>
                      w\<lparr>mtag_alias := mtag_alias w @ [(tag, alias)],
                        mtag_data := mtag_data w @
                          [\<lparr>md_tag = alias, md_name = [], md_offset = offset,
                            md_rl = get_absolute_rl h arg\<rparr>],
                        mtag_map := (case get_mtag h arg of
                                       Some arg_tag \<Rightarrow> mtag_map w @
                                         [\<lparr>mm_tag = arg_tag, mm_offset = - offset,
                                           mm_container = alias\<rparr>]
                                     | None \<Rightarrow> mtag_map w)\<rparr>))"
proof -
  let ?call = "EXPR_CALL p fn args"
  have a: "get_argument_from_call_expr (call_args ?call) param = Some arg"
    using assms(3) by simp
  have w': "call_does_mtag_assign h expr0 param key val w =
              (case propogate_assignment h ?call param (strtoul h val) (atoi h rest) w of
                 (True, w1) \<Rightarrow> w1
               | (False, w1) \<Rightarrow>
                   assign_to_alias h ?call param (strtoul h val) (atoi h rest) w1)"
    using assms(1,2) by (simp add: call_does_mtag_assign_def Let_def)
  show ?thesis
  proof (cases "bare_param h arg")
    case True
    then show ?thesis
      unfolding assms(4,5,6) w' propogate_assignment_bare [OF a]
      by (simp add: set_state_expr_mtag_def alloc_tag_data_state_def split: option.splits)
  next
    case False
    then show ?thesis
      unfolding assms(4,5,6) w' propogate_assignment_bare [OF a] assign_to_alias_rows [OF a]
      by simp
  qed
qed

theorem mtag_call_site_amended_witness:
  "call_does_mtag_assign mtag_host0
     (EXPR_ASSIGNMENT 0 OP_assign (EXPR_SYMBOL 0 ''x'')
        (EXPR_CALL 0 (EXPR_SYMBOL 0 ''reg'') [EXPR_SYMBOL 0 ''g''])) 0 ''$'' ''42+8'' mtag_world0 =
     \<lparr>mtag_stree = Map.empty, mtag_alias = [(42, 1042)],
      mtag_data = [\<lparr>md_tag = 1042, md_name = [], md_offset = 8, md_rl = [(0, 10)]\<rparr>],
      mtag_map = [\<lparr>mm_tag = 77, mm_offset = - 8, mm_container = 1042\<rparr>]\<rparr> \<and>
   call_does_mtag_assign mtag_host0
     (EXPR_CALL 0 (EXPR_SYMBOL 0 ''reg'') [EXPR_SYMBOL 0 ''p'']) 0 ''$'' ''42+8'' mtag_world0 =
     \<lparr>mtag_stree = [''p'' \<mapsto> State \<lparr>td_name = ''$->[8]'',
                       td_data = \<lparr>tai_tag = 42, tai_offset = 8, tai_param = 0\<rparr>\<rparr>],
      mtag_alias = [], mtag_data = [], mtag_map = []\<rparr>"
proof -
  have ap: "after_plus ''42+8'' = Some ''8''"
    by (simp add: after_plus_def)
  have si: "show_int (sint (8 :: 32 word)) = ''8''"
    by (simp add: show_int_def)
  have g: "\<not> bare_param mtag_host0 (EXPR_SYMBOL 0 ''g'')"
    by (simp add: bare_param_def mtag_host0_def)
  have p: "bare_param mtag_host0 (EXPR_SYMBOL 0 ''p'')"
    by (simp add: bare_param_def mtag_host0_def)
  have 1: "call_does_mtag_assign mtag_host0
     (EXPR_ASSIGNMENT 0 OP_assign (EXPR_SYMBOL 0 ''x'')
        (EXPR_CALL 0 (EXPR_SYMBOL 0 ''reg'') [EXPR_SYMBOL 0 ''g''])) 0 ''$'' ''42+8'' mtag_world0 =
     \<lparr>mtag_stree = Map.empty, mtag_alias = [(42, 1042)],
      mtag_data = [\<lparr>md_tag = 1042, md_name = [], md_offset = 8, md_rl = [(0, 10)]\<rparr>],
      mtag_map = [\<lparr>mm_tag = 77, mm_offset = - 8, mm_container = 1042\<rparr>]\<rparr>"
    using mtag_call_site_amended [where ?expr0.0 = "EXPR_ASSIGNMENT 0 OP_assign (EXPR_SYMBOL 0 ''x'')
                (EXPR_CALL 0 (EXPR_SYMBOL 0 ''reg'') [EXPR_SYMBOL 0 ''g''])"
            and p = 0 and fn = "EXPR_SYMBOL 0 ''reg''" and args = "[EXPR_SYMBOL 0 ''g'']"
            and val = "''42+8''" and rest = "''8''" and param = 0
            and arg = "EXPR_SYMBOL 0 ''g''" and h = mtag_host0 and tag = 42 and offset = 8
            and key = "''$''" and w = mtag_world0, OF _ ap _ _ _ refl] g
    by (simp add: get_argument_from_call_expr_def mtag_host0_def mtag_world0_def)
  have 2: "call_does_mtag_assign mtag_host0
     (EXPR_CALL 0 (EXPR_SYMBOL 0 ''reg'') [EXPR_SYMBOL 0 ''p'']) 0 ''$'' ''42+8'' mtag_world0 =
     \<lparr>mtag_stree = [''p'' \<mapsto> State \<lparr>td_name = ''$->[8]'',
                       td_data = \<lparr>tai_tag = 42, tai_offset = 8, tai_param = 0\<rparr>\<rparr>],
      mtag_alias = [], mtag_data = [], mtag_map = []\<rparr>"
    using mtag_call_site_amended [where ?expr0.0 = "EXPR_CALL 0 (EXPR_SYMBOL 0 ''reg'') [EXPR_SYMBOL 0 ''p'']"
            and p = 0 and fn = "EXPR_SYMBOL 0 ''reg''" and args = "[EXPR_SYMBOL 0 ''p'']"
            and val = "''42+8''" and rest = "''8''" and param = 0
            and arg = "EXPR_SYMBOL 0 ''p''" and h = mtag_host0 and tag = 42 and offset = 8
            and key = "''$''" and w = mtag_world0, OF _ ap _ _ _ refl] p si
    by (simp add: get_argument_from_call_expr_def mtag_host0_def mtag_world0_def)
  from 1 2 show ?thesis by simp
qed

end
